theory Spec2Isabelle
  imports Main "HOL-Library.Multiset" "HOL-Library.Signed_Division"
begin

section \<open>The native C interface as the wrapper sees it\<close>

text \<open>
  \<^verbatim>\<open>rs.hpp\<close> wraps the C interface of \<^verbatim>\<open>rs.h\<close>. A C pointer is an option value:
  \<open>None\<close> is \<^verbatim>\<open>nullptr\<close>. Native handles are opaque, so a handle is a number that
  names the native object.
\<close>

type_synonym 'a ptr = "'a option"

type_synonym rs_frame = nat
type_synonym rs_device = nat
type_synonym rs_option = int

text \<open>
  A native error object, read only through its three getters. The message is a C
  string; the failed function and the failed arguments may be null.
\<close>

record rs_error =
  rs_get_error_message :: string
  rs_get_failed_function :: "string ptr"
  rs_get_failed_args :: "string ptr"

text \<open>
  Modelled from the spec: the enumeration \<^verbatim>\<open>rs_subdevice\<close> is declared in \<^verbatim>\<open>rs.h\<close>,
  which is not among the sources. The spec names four kinds (color, depth, fisheye,
  motion) and a sentinel count value that ends the enumeration; \<^verbatim>\<open>rs.hpp\<close> starts
  every scan at \<^verbatim>\<open>RS_SUBDEVICE_COLOR\<close>. A value of the enumeration is an integer
  (\<^verbatim>\<open>static_cast<int>(_idx) + 1\<close>), and a cast can produce any integer.
\<close>

type_synonym rs_subdevice = int

definition RS_SUBDEVICE_COLOR :: rs_subdevice where
  "RS_SUBDEVICE_COLOR = 0"

definition RS_SUBDEVICE_DEPTH :: rs_subdevice where
  "RS_SUBDEVICE_DEPTH = 1"

definition RS_SUBDEVICE_FISHEYE :: rs_subdevice where
  "RS_SUBDEVICE_FISHEYE = 2"

definition RS_SUBDEVICE_MOTION :: rs_subdevice where
  "RS_SUBDEVICE_MOTION = 3"

definition RS_SUBDEVICE_COUNT :: rs_subdevice where
  "RS_SUBDEVICE_COUNT = 4"

text \<open>
  The part of the native state that the wrapper changes without reading it back:
  the arguments of its calls to \<^verbatim>\<open>rs_release_frame\<close> and to \<^verbatim>\<open>rs_free_error\<close>, in
  the order of the calls.
\<close>

record native =
  released :: "rs_frame list"
  freed :: "rs_error list"

definition rs_release_frame :: "rs_frame \<Rightarrow> native \<Rightarrow> native" where
  "rs_release_frame r w = w\<lparr>released := released w @ [r]\<rparr>"

definition rs_free_error :: "rs_error \<Rightarrow> native \<Rightarrow> native" where
  "rs_free_error err w = w\<lparr>freed := freed w @ [err]\<rparr>"


section \<open>class error\<close>

text \<open>
  \<^verbatim>\<open>rs::error\<close> is a \<^verbatim>\<open>std::runtime_error\<close> (whose \<^verbatim>\<open>what()\<close> is the string it was
  built from) with two more strings. The wrapper throws this class and, in
  \<^verbatim>\<open>device::get_subdevice\<close>, a plain \<^verbatim>\<open>std::runtime_error\<close>.
\<close>

record error =
  what :: string
  failed_function :: string
  failed_args :: string

datatype exn = Rs_error error | Runtime_error string

definition error_ctor :: "rs_error \<Rightarrow> native \<Rightarrow> error \<times> native" where
  "error_ctor err w =
     (let base = rs_get_error_message err;
          fn = (case rs_get_failed_function err of Some s \<Rightarrow> s | None \<Rightarrow> []);
          ar = (case rs_get_failed_args err of Some s \<Rightarrow> s | None \<Rightarrow> [])
      in (\<lparr>what = base, failed_function = fn, failed_args = ar\<rparr>, rs_free_error err w))"

definition get_failed_function :: "error \<Rightarrow> string" where
  "get_failed_function x = failed_function x"

definition get_failed_args :: "error \<Rightarrow> string" where
  "get_failed_args x = failed_args x"

definition handle :: "rs_error ptr \<Rightarrow> native \<Rightarrow> (exn + unit) \<times> native" where
  "handle e w =
     (case e of
        Some err \<Rightarrow> (let (x, w') = error_ctor err w in (Inl (Rs_error x), w'))
      | None \<Rightarrow> (Inr (), w))"


section \<open>class frame\<close>

text \<open>
  A frame is its one member, the native frame reference, which may be null. The copy
  constructor is deleted, so a frame is only made by one of the three constructors
  below. A constructor or member function that changes another frame returns the other
  frame as well.
\<close>

record frame =
  frame_ref :: "rs_frame ptr"

definition frame_ctor_default :: frame where
  "frame_ctor_default = \<lparr>frame_ref = None\<rparr>"

definition frame_ctor_ref :: "rs_frame ptr \<Rightarrow> frame" where
  "frame_ctor_ref r = \<lparr>frame_ref = r\<rparr>"

text \<open>The move constructor gives the new frame and the emptied source.\<close>

definition frame_ctor_move :: "frame \<Rightarrow> frame \<times> frame" where
  "frame_ctor_move other = (\<lparr>frame_ref = frame_ref other\<rparr>, other\<lparr>frame_ref := None\<rparr>)"

definition swap :: "frame \<Rightarrow> frame \<Rightarrow> frame \<times> frame" where
  "swap this other = (this\<lparr>frame_ref := frame_ref other\<rparr>, other\<lparr>frame_ref := frame_ref this\<rparr>)"

definition frame_dtor :: "frame \<Rightarrow> native \<Rightarrow> native" where
  "frame_dtor this w =
     (case frame_ref this of Some r \<Rightarrow> rs_release_frame r w | None \<Rightarrow> w)"

text \<open>
  \<^verbatim>\<open>operator=\<close> takes its argument by value: \<open>other\<close> is the parameter object, which the
  caller has built (by the move constructor, or from a temporary). The body swaps, and
  the parameter is destroyed when the call ends.
\<close>

definition operator_assign :: "frame \<Rightarrow> frame \<Rightarrow> native \<Rightarrow> frame \<times> native" where
  "operator_assign this other w =
     (let (this', other') = swap this other
      in (this', frame_dtor other' w))"

definition operator_bool :: "frame \<Rightarrow> bool" where
  "operator_bool this = (frame_ref this \<noteq> None)"

text \<open>
  An accessor calls its native query with the frame reference and an error slot, and
  hands the slot to \<open>handle\<close>. The native query is a parameter: for a frame reference it
  gives the returned value and the error slot after the call. C++ integer division
  truncates towards zero (\<open>sdiv\<close>).
\<close>

definition get_bits_per_pixel ::
  "(rs_frame ptr \<Rightarrow> int \<times> rs_error ptr) \<Rightarrow> frame \<Rightarrow> native \<Rightarrow> (exn + int) \<times> native" where
  "get_bits_per_pixel rs_get_frame_bits_per_pixel this w =
     (let (r, e) = rs_get_frame_bits_per_pixel (frame_ref this)
      in case handle e w of
           (Inl x, w') \<Rightarrow> (Inl x, w')
         | (Inr _, w') \<Rightarrow> (Inr r, w'))"

definition get_bytes_per_pixel ::
  "(rs_frame ptr \<Rightarrow> int \<times> rs_error ptr) \<Rightarrow> frame \<Rightarrow> native \<Rightarrow> (exn + int) \<times> native" where
  "get_bytes_per_pixel rs_get_frame_bits_per_pixel this w =
     (case get_bits_per_pixel rs_get_frame_bits_per_pixel this w of
        (Inl x, w') \<Rightarrow> (Inl x, w')
      | (Inr bits, w') \<Rightarrow> (Inr (bits sdiv 8), w'))"

text \<open>
  \<^verbatim>\<open>try_clone_ref\<close> writes through its pointer argument: \<open>result\<close> is the frame the
  pointer refers to, and its value after the call is returned beside the outcome. The
  assignment \<^verbatim>\<open>*result = frame(s)\<close> builds the parameter of \<^verbatim>\<open>operator=\<close> from the
  temporary.
\<close>

definition try_clone_ref ::
  "(rs_frame ptr \<Rightarrow> rs_frame ptr \<times> rs_error ptr) \<Rightarrow> frame \<Rightarrow> frame \<Rightarrow> native \<Rightarrow>
   (exn + bool) \<times> frame \<times> native" where
  "try_clone_ref rs_clone_frame_ref this result w =
     (let (s, e) = rs_clone_frame_ref (frame_ref this)
      in case handle e w of
           (Inl x, w') \<Rightarrow> (Inl x, result, w')
         | (Inr _, w') \<Rightarrow>
             if s = None then (Inr False, result, w')
             else (let (result', w'') = operator_assign result (frame_ctor_ref s) w'
                   in (Inr True, result', w'')))"

text \<open>The references a pointer and a frame hold: none for null, one otherwise.\<close>

definition refs :: "rs_frame ptr \<Rightarrow> rs_frame multiset" where
  "refs p = (case p of None \<Rightarrow> {#} | Some r \<Rightarrow> {#r#})"

definition owned :: "frame \<Rightarrow> rs_frame multiset" where
  "owned f = refs (frame_ref f)"


section \<open>struct option_range and class subdevice\<close>

text \<open>
  The wrapper stores the four floats and never computes with them, so their type is a
  parameter. The fields are declared in the order min, max, def, step.
\<close>

record 'f option_range =
  range_min :: 'f
  range_max :: 'f
  range_def :: 'f
  range_step :: 'f

text \<open>
  The address of a field of the local \<open>result\<close>, and a write through such an address.
\<close>

datatype field = Field_min | Field_max | Field_def | Field_step

fun store :: "field \<Rightarrow> 'f \<Rightarrow> 'f option_range \<Rightarrow> 'f option_range" where
  "store Field_min v r = r\<lparr>range_min := v\<rparr>"
| "store Field_max v r = r\<lparr>range_max := v\<rparr>"
| "store Field_def v r = r\<lparr>range_def := v\<rparr>"
| "store Field_step v r = r\<lparr>range_step := v\<rparr>"

text \<open>
  The native call \<^verbatim>\<open>rs_get_subdevice_option_range(dev, sub, option, min, max, step, def,
  error)\<close> writes one float through each of its four pointer parameters. What it computes
  is the parameter \<open>native\<close>: the values for its first to fourth pointer parameter (in
  its own order min, max, step, def) and the error slot after the call.
\<close>

definition rs_get_subdevice_option_range ::
  "(rs_device ptr \<Rightarrow> rs_subdevice \<Rightarrow> rs_option \<Rightarrow> ('f \<times> 'f \<times> 'f \<times> 'f) \<times> rs_error ptr) \<Rightarrow>
   rs_device ptr \<Rightarrow> rs_subdevice \<Rightarrow> rs_option \<Rightarrow> field \<Rightarrow> field \<Rightarrow> field \<Rightarrow> field \<Rightarrow>
   'f option_range \<Rightarrow> 'f option_range \<times> rs_error ptr" where
  "rs_get_subdevice_option_range native d sub option p1 p2 p3 p4 mem =
     (let ((v1, v2, v3, v4), e) = native d sub option
      in (store p4 v4 (store p3 v3 (store p2 v2 (store p1 v1 mem))), e))"

text \<open>
  A subdevice wrapper is the native device handle and the index of the kind.
\<close>

record subdevice =
  sub_dev :: "rs_device ptr"
  sub_index :: rs_subdevice

text \<open>
  \<^verbatim>\<open>option_range result;\<close> is not initialised: \<open>uninit\<close> is whatever the memory holds.
\<close>

definition get_option_range ::
  "(rs_device ptr \<Rightarrow> rs_subdevice \<Rightarrow> rs_option \<Rightarrow> ('f \<times> 'f \<times> 'f \<times> 'f) \<times> rs_error ptr) \<Rightarrow>
   'f option_range \<Rightarrow> subdevice \<Rightarrow> rs_option \<Rightarrow> native \<Rightarrow> (exn + 'f option_range) \<times> native" where
  "get_option_range native uninit this option w =
     (let result = uninit;
          (result', e) = rs_get_subdevice_option_range native (sub_dev this) (sub_index this)
                           option Field_min Field_max Field_step Field_def result
      in case handle e w of
           (Inl x, w') \<Rightarrow> (Inl x, w')
         | (Inr _, w') \<Rightarrow> (Inr result', w'))"


section \<open>class device\<close>

record device =
  dev :: "rs_device ptr"
  subdevices :: "subdevice ptr list"

text \<open>
  \<^verbatim>\<open>sub < _subdevices.size()\<close> compares an enumeration value with a \<^verbatim>\<open>size_t\<close>: the value
  is converted to the unsigned type, where a negative value becomes larger than the
  size of any vector, so the comparison holds for \<open>0 \<le> sub\<close> below the size only.
  \<^verbatim>\<open>&&\<close> reads the slot only then.
\<close>

definition supports :: "device \<Rightarrow> rs_subdevice \<Rightarrow> bool" where
  "supports d sub =
     (0 \<le> sub \<and> nat sub < length (subdevices d) \<and> subdevices d ! nat sub \<noteq> None)"

definition get_subdevice :: "device \<Rightarrow> rs_subdevice \<Rightarrow> exn + subdevice" where
  "get_subdevice d sub =
     (if 0 \<le> sub \<and> nat sub < length (subdevices d) \<and> subdevices d ! nat sub \<noteq> None
      then Inr (the (subdevices d ! nat sub))
      else Inl (Runtime_error ''Requested subdevice is not supported!''))"

definition color :: "device \<Rightarrow> exn + subdevice" where
  "color d = get_subdevice d RS_SUBDEVICE_COLOR"

definition depth :: "device \<Rightarrow> exn + subdevice" where
  "depth d = get_subdevice d RS_SUBDEVICE_DEPTH"

definition fisheye :: "device \<Rightarrow> exn + subdevice" where
  "fisheye d = get_subdevice d RS_SUBDEVICE_FISHEYE"

definition motion :: "device \<Rightarrow> exn + subdevice" where
  "motion d = get_subdevice d RS_SUBDEVICE_MOTION"

text \<open>
  The constructor. \<open>probe\<close> is the native \<^verbatim>\<open>rs_is_subdevice_supported\<close>: for a device
  handle and a kind it gives the returned integer and the error slot after the call.
  The vector is resized to the count (null slots), then each kind is probed in
  ascending order; an error stops the construction.
\<close>

function device_loop ::
  "(rs_device ptr \<Rightarrow> rs_subdevice \<Rightarrow> int \<times> rs_error ptr) \<Rightarrow> rs_device ptr \<Rightarrow> int \<Rightarrow>
   subdevice ptr list \<Rightarrow> native \<Rightarrow> (exn + subdevice ptr list) \<times> native" where
  "device_loop probe h i subs w =
     (if i < RS_SUBDEVICE_COUNT then
        (let s = i;
             (is_supported, e) = probe h s
         in case handle e w of
              (Inl x, w') \<Rightarrow> (Inl x, w')
            | (Inr _, w') \<Rightarrow>
                device_loop probe h (i + 1)
                  (subs[nat s := (if is_supported \<noteq> 0
                                  then Some \<lparr>sub_dev = h, sub_index = s\<rparr> else None)]) w')
      else (Inr subs, w))"
  by pat_completeness auto
termination
  by (relation "measure (\<lambda>(probe, h, i, subs, w). nat (RS_SUBDEVICE_COUNT - i))") auto

declare device_loop.simps [simp del]

definition device_ctor ::
  "(rs_device ptr \<Rightarrow> rs_subdevice \<Rightarrow> int \<times> rs_error ptr) \<Rightarrow> rs_device ptr \<Rightarrow> native \<Rightarrow>
   (exn + device) \<times> native" where
  "device_ctor probe h w =
     (case device_loop probe h 0 (replicate (nat RS_SUBDEVICE_COUNT) None) w of
        (Inl x, w') \<Rightarrow> (Inl x, w')
      | (Inr subs, w') \<Rightarrow> (Inr \<lparr>dev = h, subdevices = subs\<rparr>, w'))"


section \<open>class subdevice_iterator\<close>

record subdevice_iterator =
  idx :: rs_subdevice
  it_dev :: device

text \<open>
  \<^verbatim>\<open>operator++\<close> is a do-while loop: it steps first and tests afterwards, and goes on
  while the index is not the count and the device does not support it. Started at or
  beyond the count it never meets the count again, so it is a partial function:
  \<open>None\<close> is the loop that does not return.
\<close>

partial_function (option) operator_inc :: "subdevice_iterator \<Rightarrow> subdevice_iterator option" where
  "operator_inc it =
     (let it' = it\<lparr>idx := idx it + 1\<rparr>
      in if idx it' \<noteq> RS_SUBDEVICE_COUNT \<and> \<not> supports (it_dev it') (idx it')
         then operator_inc it' else Some it')"

definition operator_deref :: "subdevice_iterator \<Rightarrow> exn + subdevice" where
  "operator_deref it = get_subdevice (it_dev it) (idx it)"

definition operator_eq :: "subdevice_iterator \<Rightarrow> subdevice_iterator \<Rightarrow> bool" where
  "operator_eq it other = (idx it = idx other)"

definition operator_ne :: "subdevice_iterator \<Rightarrow> subdevice_iterator \<Rightarrow> bool" where
  "operator_ne it other = (idx it \<noteq> idx other)"

definition rs_begin :: "device \<Rightarrow> subdevice_iterator" where
  "rs_begin d = \<lparr>idx = RS_SUBDEVICE_COLOR, it_dev = d\<rparr>"

definition rs_end :: "device \<Rightarrow> subdevice_iterator" where
  "rs_end d = \<lparr>idx = RS_SUBDEVICE_COUNT, it_dev = d\<rparr>"

text \<open>
  The iteration of a device with \<^verbatim>\<open>begin\<close> and \<^verbatim>\<open>end\<close>, as a range-based \<^verbatim>\<open>for\<close> runs
  it: while the iterator differs from the end, dereference it, visit the subdevice
  (its kind, read with the conversion to \<^verbatim>\<open>rs_subdevice\<close>, is recorded), and
  advance. A throw of the dereference leaves the loop.
\<close>

partial_function (option) range_for_loop ::
  "subdevice_iterator \<Rightarrow> subdevice_iterator \<Rightarrow> rs_subdevice list \<Rightarrow>
   (exn + rs_subdevice list) option" where
  "range_for_loop it fin visited =
     (if operator_ne it fin then
        (case operator_deref it of
           Inl x \<Rightarrow> Some (Inl x)
         | Inr s \<Rightarrow>
             (case operator_inc it of
                None \<Rightarrow> None
              | Some it' \<Rightarrow> range_for_loop it' fin (visited @ [sub_index s])))
      else Some (Inr visited))"

definition range_for :: "device \<Rightarrow> (exn + rs_subdevice list) option" where
  "range_for d = range_for_loop (rs_begin d) (rs_end d) []"


section \<open>class frame_queue\<close>

text \<open>
  The queue object holds the native queue \<open>q\<close>; the two native calls on it are
  parameters. \<open>rs_enqueue_frame\<close> takes the frame reference and the queue and has no
  error slot. \<open>rs_poll_for_frame\<close> gives its returned integer, the value of the local
  \<^verbatim>\<open>frame_ref\<close> after the call (null before it) and the error slot after the call.

  \<^verbatim>\<open>enqueue\<close> takes the frame by value: \<open>f\<close> is the parameter object, nulled by the body
  and destroyed when the call ends.
\<close>

definition enqueue ::
  "(rs_frame ptr \<Rightarrow> 'q \<Rightarrow> 'q) \<Rightarrow> 'q \<Rightarrow> frame \<Rightarrow> native \<Rightarrow> 'q \<times> native" where
  "enqueue rs_enqueue_frame q f w =
     (let q' = rs_enqueue_frame (frame_ref f) q;
          f' = f\<lparr>frame_ref := None\<rparr>
      in (q', frame_dtor f' w))"

definition poll_for_frame ::
  "('q \<Rightarrow> (int \<times> rs_frame ptr \<times> rs_error ptr) \<times> 'q) \<Rightarrow> 'q \<Rightarrow> frame \<Rightarrow> native \<Rightarrow>
   (exn + bool) \<times> frame \<times> 'q \<times> native" where
  "poll_for_frame rs_poll_for_frame q f w =
     (let ((res, frame_ref', e), q') = rs_poll_for_frame q
      in case handle e w of
           (Inl x, w') \<Rightarrow> (Inl x, f, q', w')
         | (Inr _, w') \<Rightarrow>
             (let (f', w'') = (if res \<noteq> 0 then operator_assign f (frame_ctor_ref frame_ref') w'
                               else (f, w'))
              in (Inr (res > 0), f', q', w'')))"

text \<open>
  \<^verbatim>\<open>operator()\<close> moves its own by-value parameter into the parameter of \<^verbatim>\<open>enqueue\<close>, and
  its parameter is destroyed when it returns.
\<close>

definition operator_call ::
  "(rs_frame ptr \<Rightarrow> 'q \<Rightarrow> 'q) \<Rightarrow> 'q \<Rightarrow> frame \<Rightarrow> native \<Rightarrow> 'q \<times> native" where
  "operator_call rs_enqueue_frame q f w =
     (let (arg, f') = frame_ctor_move f;
          (q', w') = enqueue rs_enqueue_frame q arg w
      in (q', frame_dtor f' w'))"

text \<open>
  Modelled from the spec: the native frame queue (\<^verbatim>\<open>rs_create_frame_queue\<close>,
  \<^verbatim>\<open>rs_enqueue_frame\<close>, \<^verbatim>\<open>rs_poll_for_frame\<close>) is not among the sources. The spec calls it
  a bounded-capacity FIFO: enqueue takes the frame into the queue, and poll does not
  block, reports whether an entry was available and, if so, yields the oldest one. The
  spec does not say what a full queue does with one more frame: that is the parameter
  \<open>when_full\<close>, from the entries and the new frame to the new entries.
\<close>

record rs_frame_queue =
  capacity :: nat
  entries :: "rs_frame ptr list"

definition rs_create_frame_queue :: "nat \<Rightarrow> rs_frame_queue" where
  "rs_create_frame_queue n = \<lparr>capacity = n, entries = []\<rparr>"

definition rs_enqueue_frame ::
  "(rs_frame ptr list \<Rightarrow> rs_frame ptr \<Rightarrow> rs_frame ptr list) \<Rightarrow> rs_frame ptr \<Rightarrow>
   rs_frame_queue \<Rightarrow> rs_frame_queue" where
  "rs_enqueue_frame when_full p q =
     (if length (entries q) < capacity q then q\<lparr>entries := entries q @ [p]\<rparr>
      else q\<lparr>entries := when_full (entries q) p\<rparr>)"

definition rs_poll_for_frame ::
  "rs_frame_queue \<Rightarrow> (int \<times> rs_frame ptr \<times> rs_error ptr) \<times> rs_frame_queue" where
  "rs_poll_for_frame q =
     (case entries q of
        [] \<Rightarrow> ((0, None, None), q)
      | p # ps \<Rightarrow> ((1, p, None), q\<lparr>entries := ps\<rparr>))"


section \<open>Error translation\<close>

lemma handle_null: "handle None w = (Inr (), w)"
  by (simp add: handle_def)

lemma handle_error:
  "handle (Some err) w =
     (Inl (Rs_error \<lparr>what = rs_get_error_message err,
                     failed_function = (case rs_get_failed_function err of Some s \<Rightarrow> s | None \<Rightarrow> []),
                     failed_args = (case rs_get_failed_args err of Some s \<Rightarrow> s | None \<Rightarrow> [])\<rparr>),
      w\<lparr>freed := freed w @ [err]\<rparr>)"
  by (simp add: handle_def error_ctor_def rs_free_error_def)

text \<open>
  C2. A null error slot makes \<open>handle\<close> return with nothing thrown and the native state
  untouched. A non-null one makes it throw an \<open>error\<close> whose message is the native
  message, whose failed function and failed arguments are the native strings, the
  empty string standing for a null one, and the native error object is freed once.
\<close>

theorem handle_translates_native_error:
  "handle None w = (Inr (), w)
   \<and> (\<exists>x. handle (Some err) w = (Inl (Rs_error x), w\<lparr>freed := freed w @ [err]\<rparr>)
        \<and> what x = rs_get_error_message err
        \<and> get_failed_function x
            = (case rs_get_failed_function err of None \<Rightarrow> '''' | Some s \<Rightarrow> s)
        \<and> get_failed_args x
            = (case rs_get_failed_args err of None \<Rightarrow> '''' | Some s \<Rightarrow> s))
   \<and> handle (Some \<lparr>rs_get_error_message = m, rs_get_failed_function = None,
                    rs_get_failed_args = None\<rparr>) w
       = (Inl (Rs_error \<lparr>what = m, failed_function = '''', failed_args = ''''\<rparr>),
          w\<lparr>freed := freed w @ [\<lparr>rs_get_error_message = m, rs_get_failed_function = None,
                                   rs_get_failed_args = None\<rparr>]\<rparr>)"
  by (simp add: handle_null handle_error get_failed_function_def get_failed_args_def)


section \<open>Frames\<close>

lemma owned_at_most_one: "size (owned f) \<le> 1"
  by (simp add: owned_def refs_def split: option.split)

lemma owned_ctor [simp]:
  "owned frame_ctor_default = {#}" "owned (frame_ctor_ref p) = refs p"
  by (simp_all add: owned_def refs_def frame_ctor_default_def frame_ctor_ref_def)

lemma frame_ctor_move_eq:
  "frame_ctor_move other = (\<lparr>frame_ref = frame_ref other\<rparr>, \<lparr>frame_ref = None\<rparr>)"
  by (simp add: frame_ctor_move_def)

lemma swap_eq:
  "swap this other = (\<lparr>frame_ref = frame_ref other\<rparr>, \<lparr>frame_ref = frame_ref this\<rparr>)"
  by (simp add: swap_def)

lemma released_frame_dtor:
  "released (frame_dtor f w) = released w @ (case frame_ref f of None \<Rightarrow> [] | Some r \<Rightarrow> [r])"
  by (simp add: frame_dtor_def rs_release_frame_def split: option.split)

lemma freed_frame_dtor: "freed (frame_dtor f w) = freed w"
  by (simp add: frame_dtor_def rs_release_frame_def split: option.split)

lemma frame_dtor_null: "frame_dtor \<lparr>frame_ref = None\<rparr> w = w"
  by (simp add: frame_dtor_def)

lemma mset_released_frame_dtor:
  "mset (released (frame_dtor f w)) = mset (released w) + owned f"
  by (simp add: released_frame_dtor owned_def refs_def split: option.split)

lemma operator_assign_eq:
  "operator_assign this other w
     = (\<lparr>frame_ref = frame_ref other\<rparr>, frame_dtor \<lparr>frame_ref = frame_ref this\<rparr> w)"
  by (simp add: operator_assign_def swap_eq)

lemma frame_dtor_cong: "frame_dtor \<lparr>frame_ref = frame_ref f\<rparr> w = frame_dtor f w"
  by (simp add: frame_dtor_def)

lemma try_clone_ref_throw:
  "rs_clone_frame_ref (frame_ref this) = (s, Some err) \<Longrightarrow>
   \<exists>x. try_clone_ref rs_clone_frame_ref this result w
         = (Inl (Rs_error x), result, w\<lparr>freed := freed w @ [err]\<rparr>)"
  by (simp add: try_clone_ref_def handle_error)

lemma try_clone_ref_null:
  "rs_clone_frame_ref (frame_ref this) = (None, None) \<Longrightarrow>
   try_clone_ref rs_clone_frame_ref this result w = (Inr False, result, w)"
  by (simp add: try_clone_ref_def handle_null)

lemma try_clone_ref_some:
  "rs_clone_frame_ref (frame_ref this) = (Some r, None) \<Longrightarrow>
   try_clone_ref rs_clone_frame_ref this result w
     = (Inr True, \<lparr>frame_ref = Some r\<rparr>, frame_dtor result w)"
  by (simp add: try_clone_ref_def handle_null operator_assign_eq frame_ctor_ref_def
      frame_dtor_cong)

text \<open>
  C5. A default-constructed frame converts to false, also when it is assigned to a
  frame that held a reference; a frame built from a non-null native reference converts
  to true. Moving a frame, into a new frame (move constructor) or into an existing one
  (\<^verbatim>\<open>G = std::move(F)\<close>: the parameter of \<^verbatim>\<open>operator=\<close> is move-constructed from \<open>F\<close>),
  leaves the source converting to false and the target holding the reference the
  source held.
\<close>

theorem frame_bool_and_move:
  "operator_bool frame_ctor_default = False
   \<and> operator_bool (fst (operator_assign F frame_ctor_default w)) = False
   \<and> operator_bool (frame_ctor_ref (Some r)) = True
   \<and> frame_ref (frame_ctor_ref (Some r)) = Some r
   \<and> (case frame_ctor_move F of (G, F') \<Rightarrow>
         operator_bool F' = False \<and> frame_ref F' = None \<and> frame_ref G = frame_ref F)
   \<and> (case frame_ctor_move F of (other, F') \<Rightarrow>
       case operator_assign G other w of (G', w') \<Rightarrow>
         operator_bool F' = False \<and> frame_ref F' = None \<and> frame_ref G' = frame_ref F)"
  by (simp add: operator_bool_def frame_ctor_default_def frame_ctor_ref_def
      frame_ctor_move_eq operator_assign_eq)

text \<open>
  C8. A frame holds at most one native reference. Constructing a frame releases
  nothing; a move hands the reference to the new frame and empties the source; a swap
  exchanges the two references. The destructor releases the held reference with one
  call and releases nothing for a null frame. An assignment hands over the reference
  of its argument and releases the replaced one with one call. \<open>try_clone_ref\<close>, when it
  throws, changes no frame and releases nothing; when it returns, the target holds the
  clone (if any) and the reference it replaced is released with one call. \<open>enqueue\<close>
  passes the reference to the native queue and releases nothing. On both exits of
  \<open>try_clone_ref\<close>, destroying the two frames afterwards releases each reference held
  by a frame exactly once: the released references grow by those of the two frames
  and, on a return, the clone.
\<close>

theorem frame_reference_released_once:
  "size (owned f) \<le> 1
   \<and> owned frame_ctor_default = {#}
   \<and> owned (frame_ctor_ref p) = refs p
   \<and> (case frame_ctor_move f of (g, f') \<Rightarrow> owned g = owned f \<and> owned f' = {#})
   \<and> (case swap f g of (f', g') \<Rightarrow> owned f' = owned g \<and> owned g' = owned f)
   \<and> released (frame_dtor f w)
       = released w @ (case frame_ref f of None \<Rightarrow> [] | Some r \<Rightarrow> [r])
   \<and> mset (released (frame_dtor f w)) = mset (released w) + owned f
   \<and> (case operator_assign f g w of (f', w') \<Rightarrow>
         owned f' = owned g \<and> mset (released w') = mset (released w) + owned f)
   \<and> (case try_clone_ref rs_clone_frame_ref f g w of
         (Inl x, g', w') \<Rightarrow>
            g' = g \<and> released w' = released w
            \<and> mset (released (frame_dtor f (frame_dtor g' w')))
                = mset (released w) + owned f + owned g
       | (Inr b, g', w') \<Rightarrow>
            owned g' + mset (released w')
              = refs (fst (rs_clone_frame_ref (frame_ref f))) + owned g + mset (released w)
            \<and> mset (released (frame_dtor f (frame_dtor g' w')))
                = mset (released w) + owned f + owned g
                  + refs (fst (rs_clone_frame_ref (frame_ref f))))
   \<and> (case frame_ctor_move f of (arg, f') \<Rightarrow>
       case enqueue enq q arg w of (q', w') \<Rightarrow>
         q' = enq (frame_ref f) q \<and> owned f' = {#} \<and> w' = w
         \<and> frame_dtor f' w' = w)"
proof -
  have clone: "case try_clone_ref rs_clone_frame_ref f g w of
         (Inl x, g', w') \<Rightarrow>
            g' = g \<and> released w' = released w
            \<and> mset (released (frame_dtor f (frame_dtor g' w')))
                = mset (released w) + owned f + owned g
       | (Inr b, g', w') \<Rightarrow>
            owned g' + mset (released w')
              = refs (fst (rs_clone_frame_ref (frame_ref f))) + owned g + mset (released w)
            \<and> mset (released (frame_dtor f (frame_dtor g' w')))
                = mset (released w) + owned f + owned g
                  + refs (fst (rs_clone_frame_ref (frame_ref f)))"
  proof -
    obtain s e where n: "rs_clone_frame_ref (frame_ref f) = (s, e)"
      by (cases "rs_clone_frame_ref (frame_ref f)")
    show ?thesis
    proof (cases e)
      case (Some err)
      with try_clone_ref_throw [of rs_clone_frame_ref f s err g w] n
      obtain x where "try_clone_ref rs_clone_frame_ref f g w
          = (Inl (Rs_error x), g, w\<lparr>freed := freed w @ [err]\<rparr>)"
        by auto
      then show ?thesis
        by (simp add: mset_released_frame_dtor)
    next
      case None
      show ?thesis
      proof (cases s)
        case None
        with \<open>e = None\<close> n show ?thesis
          by (simp add: try_clone_ref_null mset_released_frame_dtor refs_def)
      next
        case (Some r)
        with \<open>e = None\<close> n show ?thesis
          by (simp add: try_clone_ref_some mset_released_frame_dtor owned_def refs_def)
      qed
    qed
  qed
  have rest: "size (owned f) \<le> 1
   \<and> owned frame_ctor_default = {#}
   \<and> owned (frame_ctor_ref p) = refs p
   \<and> (case frame_ctor_move f of (g, f') \<Rightarrow> owned g = owned f \<and> owned f' = {#})
   \<and> (case swap f g of (f', g') \<Rightarrow> owned f' = owned g \<and> owned g' = owned f)
   \<and> released (frame_dtor f w)
       = released w @ (case frame_ref f of None \<Rightarrow> [] | Some r \<Rightarrow> [r])
   \<and> mset (released (frame_dtor f w)) = mset (released w) + owned f
   \<and> (case operator_assign f g w of (f', w') \<Rightarrow>
         owned f' = owned g \<and> mset (released w') = mset (released w) + owned f)"
    by (simp add: owned_at_most_one frame_ctor_move_eq swap_eq released_frame_dtor [of f w]
        mset_released_frame_dtor operator_assign_eq)
      (simp add: owned_def refs_def split: option.split)
  have enq: "case frame_ctor_move f of (arg, f') \<Rightarrow>
       case enqueue enq q arg w of (q', w') \<Rightarrow>
         q' = enq (frame_ref f) q \<and> owned f' = {#} \<and> w' = w
         \<and> frame_dtor f' w' = w"
    by (simp add: frame_ctor_move_eq enqueue_def frame_dtor_null owned_def refs_def)
  from rest clone enq show ?thesis
    by (elim conjE) (intro conjI; assumption)
qed

text \<open>
  C9. When the native bits-per-pixel query reports no error, \<open>get_bytes_per_pixel\<close>
  returns the bits per pixel divided by 8, the division truncating towards zero (the
  sign times the quotient of the absolute values); when the query reports an error,
  \<open>get_bytes_per_pixel\<close> throws what \<open>get_bits_per_pixel\<close> throws. Its only native
  call is that query.
\<close>

theorem get_bytes_per_pixel_is_bits_div_8:
  assumes "rs_get_frame_bits_per_pixel (frame_ref f) = (bits, e)"
  shows "(case e of
            None \<Rightarrow>
              get_bits_per_pixel rs_get_frame_bits_per_pixel f w = (Inr bits, w)
              \<and> get_bytes_per_pixel rs_get_frame_bits_per_pixel f w = (Inr (bits sdiv 8), w)
              \<and> bits sdiv 8 = sgn bits * (\<bar>bits\<bar> div 8)
          | Some err \<Rightarrow>
              get_bytes_per_pixel rs_get_frame_bits_per_pixel f w
                = get_bits_per_pixel rs_get_frame_bits_per_pixel f w
              \<and> isl (fst (get_bits_per_pixel rs_get_frame_bits_per_pixel f w)))"
proof (cases e)
  case None
  with assms show ?thesis
    by (simp add: get_bytes_per_pixel_def get_bits_per_pixel_def handle_null
        signed_divide_int_def)
next
  case (Some err)
  with assms show ?thesis
    by (simp add: get_bytes_per_pixel_def get_bits_per_pixel_def handle_error)
qed

theorem get_bytes_per_pixel_is_bits_div_8_witness:
  "get_bytes_per_pixel (\<lambda>r. (if r = Some 1 then 8 else if r = Some 2 then 16 else 24, None))
      \<lparr>frame_ref = Some 1\<rparr> \<lparr>released = [], freed = []\<rparr>
     = (Inr 1, \<lparr>released = [], freed = []\<rparr>)
   \<and> get_bytes_per_pixel (\<lambda>r. (if r = Some 1 then 8 else if r = Some 2 then 16 else 24, None))
      \<lparr>frame_ref = Some 2\<rparr> \<lparr>released = [], freed = []\<rparr>
     = (Inr 2, \<lparr>released = [], freed = []\<rparr>)
   \<and> get_bytes_per_pixel (\<lambda>r. (if r = Some 1 then 8 else if r = Some 2 then 16 else 24, None))
      \<lparr>frame_ref = Some 3\<rparr> \<lparr>released = [], freed = []\<rparr>
     = (Inr 3, \<lparr>released = [], freed = []\<rparr>)
   \<and> get_bytes_per_pixel (\<lambda>r. (12, None)) \<lparr>frame_ref = Some 1\<rparr> \<lparr>released = [], freed = []\<rparr>
     = (Inr 1, \<lparr>released = [], freed = []\<rparr>)"
  using
    get_bytes_per_pixel_is_bits_div_8
      [of "\<lambda>r. (if r = Some 1 then 8 else if r = Some 2 then 16 else 24, None)"
          "\<lparr>frame_ref = Some 1\<rparr>" 8 None "\<lparr>released = [], freed = []\<rparr>"]
    get_bytes_per_pixel_is_bits_div_8
      [of "\<lambda>r. (if r = Some 1 then 8 else if r = Some 2 then 16 else 24, None)"
          "\<lparr>frame_ref = Some 2\<rparr>" 16 None "\<lparr>released = [], freed = []\<rparr>"]
    get_bytes_per_pixel_is_bits_div_8
      [of "\<lambda>r. (if r = Some 1 then 8 else if r = Some 2 then 16 else 24, None)"
          "\<lparr>frame_ref = Some 3\<rparr>" 24 None "\<lparr>released = [], freed = []\<rparr>"]
    get_bytes_per_pixel_is_bits_div_8
      [of "\<lambda>r. (12, None)" "\<lparr>frame_ref = Some 1\<rparr>" 12 None "\<lparr>released = [], freed = []\<rparr>"]
  by simp

section \<open>Option ranges\<close>

text \<open>
  C4. \<open>get_option_range\<close> passes the addresses of the fields min, max, step and def, in
  this order, as the four pointer parameters of the native call. When the native call
  reports no error, the returned range holds the value written through the first
  pointer in min, the second in max, the third in step and the fourth in def, whatever
  the uninitialised local held.
\<close>

theorem get_option_range_order:
  assumes "native (sub_dev s) (sub_index s) option = ((v1, v2, v3, v4), None)"
  shows "get_option_range native uninit s option w
     = (Inr \<lparr>range_min = v1, range_max = v2, range_def = v4, range_step = v3\<rparr>, w)"
  using assms
  by (simp add: get_option_range_def rs_get_subdevice_option_range_def handle_null)

theorem get_option_range_order_witness:
  "get_option_range (\<lambda>d sub option. ((10, 20, 30, 40), None))
      \<lparr>range_min = 0, range_max = 0, range_def = 0, range_step = 0\<rparr>
      \<lparr>sub_dev = Some 7, sub_index = 1\<rparr> 5 \<lparr>released = [], freed = []\<rparr>
     = (Inr \<lparr>range_min = 10 :: nat, range_max = 20, range_def = 40, range_step = 30\<rparr>,
        \<lparr>released = [], freed = []\<rparr>)"
  using get_option_range_order
    [of "\<lambda>d sub option. ((10, 20, 30, 40 :: nat), None)" "\<lparr>sub_dev = Some 7, sub_index = 1\<rparr>"
        5 10 20 30 40 "\<lparr>range_min = 0, range_max = 0, range_def = 0, range_step = 0\<rparr>"
        "\<lparr>released = [], freed = []\<rparr>"]
  by simp

section \<open>The subdevice table\<close>

lemma device_loop_table:
  "device_loop probe h i subs w = (Inr subs', w') \<Longrightarrow> 0 \<le> i \<Longrightarrow>
   length subs = nat RS_SUBDEVICE_COUNT \<Longrightarrow>
   length subs' = nat RS_SUBDEVICE_COUNT \<and>
   (\<forall>k. k < nat RS_SUBDEVICE_COUNT \<longrightarrow>
      subs' ! k =
        (if k < nat i then subs ! k
         else if fst (probe h (int k)) \<noteq> 0
              then Some \<lparr>sub_dev = h, sub_index = int k\<rparr> else None))"
proof (induction probe h i subs w rule: device_loop.induct)
  case (1 probe h i subs w)
  show ?case
  proof (cases "i < RS_SUBDEVICE_COUNT")
    case False
    then have "k < nat i" if "k < nat RS_SUBDEVICE_COUNT" for k
      using that by linarith
    with False "1.prems" show ?thesis
      by (auto simp: device_loop.simps [of probe h i subs w])
  next
    case True
    obtain is_supported e where pr: "probe h i = (is_supported, e)"
      by (cases "probe h i")
    obtain r w1 where hd: "handle e w = (r, w1)"
      by (cases "handle e w")
    let ?slot = "if is_supported \<noteq> 0 then Some \<lparr>sub_dev = h, sub_index = i\<rparr> else None"
    from "1.prems"(1) True pr hd obtain u where r: "r = Inr u"
      and rec: "device_loop probe h (i + 1) (subs[nat i := ?slot]) w1 = (Inr subs', w')"
      by (cases r) (simp_all add: device_loop.simps [of probe h i subs w])
    have ih: "length subs' = nat RS_SUBDEVICE_COUNT \<and>
      (\<forall>k. k < nat RS_SUBDEVICE_COUNT \<longrightarrow>
         subs' ! k =
           (if k < nat (i + 1) then (subs[nat i := ?slot]) ! k
            else if fst (probe h (int k)) \<noteq> 0
                 then Some \<lparr>sub_dev = h, sub_index = int k\<rparr> else None))"
      using "1.IH" [OF True refl refl pr [symmetric] hd [symmetric] r rec] "1.prems"(2,3)
      by simp
    show ?thesis
    proof (intro conjI allI impI)
      show "length subs' = nat RS_SUBDEVICE_COUNT"
        using ih by simp
    next
      fix k assume k: "k < nat RS_SUBDEVICE_COUNT"
      from ih k have eq: "subs' ! k =
           (if k < nat (i + 1) then (subs[nat i := ?slot]) ! k
            else if fst (probe h (int k)) \<noteq> 0
                 then Some \<lparr>sub_dev = h, sub_index = int k\<rparr> else None)"
        by blast
      consider "k < nat i" | "k = nat i" | "nat i < k" by linarith
      then show "subs' ! k =
        (if k < nat i then subs ! k
         else if fst (probe h (int k)) \<noteq> 0
              then Some \<lparr>sub_dev = h, sub_index = int k\<rparr> else None)"
      proof cases
        case 1
        with "1.prems"(2) have "k < nat (i + 1)" and "nat i \<noteq> k"
          by linarith+
        with eq 1 show ?thesis by simp
      next
        case 2
        with "1.prems"(2) have "k < nat (i + 1)" and "\<not> k < nat i" and "int k = i"
          by linarith+
        moreover from 2 k "1.prems"(3) have "nat i < length subs"
          by simp
        ultimately show ?thesis
          using eq 2 pr "1.prems"(2) by simp
      next
        case 3
        with "1.prems"(2) have "\<not> k < nat (i + 1)" and "\<not> k < nat i"
          by linarith+
        with eq show ?thesis by simp
      qed
    qed
  qed
qed

lemma device_ctor_table:
  assumes "device_ctor probe h w = (Inr d, w')"
  shows "dev d = h" and "length (subdevices d) = nat RS_SUBDEVICE_COUNT"
    and "k < nat RS_SUBDEVICE_COUNT \<Longrightarrow>
         subdevices d ! k =
           (if fst (probe h (int k)) \<noteq> 0
            then Some \<lparr>sub_dev = h, sub_index = int k\<rparr> else None)"
proof -
  obtain r w1 where l: "device_loop probe h 0 (replicate (nat RS_SUBDEVICE_COUNT) None) w = (r, w1)"
    by (cases "device_loop probe h 0 (replicate (nat RS_SUBDEVICE_COUNT) None) w")
  with assms obtain subs where r: "r = Inr subs" and d: "d = \<lparr>dev = h, subdevices = subs\<rparr>"
    by (cases r) (auto simp: device_ctor_def)
  from device_loop_table [OF l [unfolded r]]
  have t: "length subs = nat RS_SUBDEVICE_COUNT \<and>
    (\<forall>k. k < nat RS_SUBDEVICE_COUNT \<longrightarrow>
      subs ! k = (if fst (probe h (int k)) \<noteq> 0
                  then Some \<lparr>sub_dev = h, sub_index = int k\<rparr> else None))"
    by simp
  show "dev d = h" by (simp add: d)
  show "length (subdevices d) = nat RS_SUBDEVICE_COUNT" using t by (simp add: d)
  show "subdevices d ! k =
           (if fst (probe h (int k)) \<noteq> 0
            then Some \<lparr>sub_dev = h, sub_index = int k\<rparr> else None)"
    if "k < nat RS_SUBDEVICE_COUNT"
    using t that by (simp add: d)
qed

lemma get_subdevice_device_ctor:
  assumes "device_ctor probe h w = (Inr d, w')"
  shows "get_subdevice d kind =
     (if 0 \<le> kind \<and> kind < RS_SUBDEVICE_COUNT \<and> fst (probe h kind) \<noteq> 0
      then Inr \<lparr>sub_dev = h, sub_index = kind\<rparr>
      else Inl (Runtime_error ''Requested subdevice is not supported!''))"
proof (cases "0 \<le> kind \<and> kind < RS_SUBDEVICE_COUNT")
  case True
  then have k: "nat kind < nat RS_SUBDEVICE_COUNT" by simp
  from device_ctor_table(2) [OF assms] device_ctor_table(3) [OF assms k] True
  show ?thesis
    by (simp add: get_subdevice_def)
next
  case False
  with device_ctor_table(2) [OF assms] show ?thesis
    by (auto simp: get_subdevice_def)
qed

text \<open>
  C3. On a device that its constructor built from the support probe, \<open>get_subdevice\<close>
  returns the wrapper of the kind (the device handle with that index) when the kind
  is inside the table and the probe reported it present, and otherwise throws the
  plain runtime error "Requested subdevice is not supported!", which is not the
  \<open>error\<close> class that \<open>handle\<close> throws for the native layer; \<open>get_subdevice\<close> takes no
  native state.
\<close>

theorem get_subdevice_after_probe:
  assumes "device_ctor probe h w = (Inr d, w')"
  shows "get_subdevice d kind =
     (if 0 \<le> kind \<and> kind < RS_SUBDEVICE_COUNT \<and> fst (probe h kind) \<noteq> 0
      then Inr \<lparr>sub_dev = h, sub_index = kind\<rparr>
      else Inl (Runtime_error ''Requested subdevice is not supported!''))"
  using assms by (rule get_subdevice_device_ctor)

theorem get_subdevice_after_probe_witness:
  "device_ctor (\<lambda>h s. (if s = 1 then 1 else 0, None)) (Some 7) \<lparr>released = [], freed = []\<rparr>
     = (Inr \<lparr>dev = Some 7,
             subdevices = [None, Some \<lparr>sub_dev = Some 7, sub_index = 1\<rparr>, None, None]\<rparr>,
        \<lparr>released = [], freed = []\<rparr>)
   \<and> get_subdevice
       \<lparr>dev = Some 7, subdevices = [None, Some \<lparr>sub_dev = Some 7, sub_index = 1\<rparr>, None, None]\<rparr> 1
     = Inr \<lparr>sub_dev = Some 7, sub_index = 1\<rparr>
   \<and> get_subdevice
       \<lparr>dev = Some 7, subdevices = [None, Some \<lparr>sub_dev = Some 7, sub_index = 1\<rparr>, None, None]\<rparr> 0
     = Inl (Runtime_error ''Requested subdevice is not supported!'')
   \<and> get_subdevice
       \<lparr>dev = Some 7, subdevices = [None, Some \<lparr>sub_dev = Some 7, sub_index = 1\<rparr>, None, None]\<rparr> 4
     = Inl (Runtime_error ''Requested subdevice is not supported!'')"
proof -
  have c: "device_ctor (\<lambda>h s. (if s = 1 then 1 else 0, None)) (Some 7) \<lparr>released = [], freed = []\<rparr>
     = (Inr \<lparr>dev = Some 7,
             subdevices = [None, Some \<lparr>sub_dev = Some 7, sub_index = 1\<rparr>, None, None]\<rparr>,
        \<lparr>released = [], freed = []\<rparr>)"
    by (simp add: device_ctor_def device_loop.simps RS_SUBDEVICE_COUNT_def handle_def
        eval_nat_numeral)
  show ?thesis
    using c get_subdevice_after_probe [OF c, of 1] get_subdevice_after_probe [OF c, of 0]
      get_subdevice_after_probe [OF c, of 4]
    by (simp add: RS_SUBDEVICE_COUNT_def)
qed

text \<open>
  C10. \<open>supports\<close> is a total test on the table alone: it takes no native state and has
  no failing result, for every integer, and it is false on every negative value and
  on every value at or beyond the size of the table. \<open>get_subdevice\<close> throws exactly
  when \<open>supports\<close> is false, and returns the stored wrapper when it is true.
\<close>

theorem get_subdevice_throws_iff_unsupported:
  "isl (get_subdevice d s) = (\<not> supports d s)
   \<and> get_subdevice d s =
       (if supports d s then Inr (the (subdevices d ! nat s))
        else Inl (Runtime_error ''Requested subdevice is not supported!''))
   \<and> \<not> supports d (int (length (subdevices d)) + int n)
   \<and> \<not> supports d (- 1 - int n)
   \<and> isl (get_subdevice d (int (length (subdevices d)) + int n))
   \<and> isl (get_subdevice d (- 1 - int n))"
proof -
  have "\<not> nat (int (length (subdevices d)) + int n) < length (subdevices d)"
    by linarith
  then show ?thesis
    by (simp add: get_subdevice_def supports_def)
qed


section \<open>Iterating a device\<close>

lemma operator_inc_next:
  "0 \<le> i \<Longrightarrow> i < RS_SUBDEVICE_COUNT \<Longrightarrow>
   \<exists>j. operator_inc \<lparr>idx = i, it_dev = d\<rparr> = Some \<lparr>idx = j, it_dev = d\<rparr>
       \<and> i < j \<and> j \<le> RS_SUBDEVICE_COUNT
       \<and> (j = RS_SUBDEVICE_COUNT \<or> supports d j)
       \<and> filter (supports d) [i + 1..j - 1] = []"
proof (induction "nat (RS_SUBDEVICE_COUNT - i)" arbitrary: i)
  case 0
  then show ?case by simp
next
  case (Suc n)
  show ?case
  proof (cases "i + 1 \<noteq> RS_SUBDEVICE_COUNT \<and> \<not> supports d (i + 1)")
    case False
    then have "operator_inc \<lparr>idx = i, it_dev = d\<rparr> = Some \<lparr>idx = i + 1, it_dev = d\<rparr>"
      by (subst operator_inc.simps) (auto simp: Let_def)
    with False Suc.prems show ?thesis
      by auto
  next
    case True
    then have step: "operator_inc \<lparr>idx = i, it_dev = d\<rparr> = operator_inc \<lparr>idx = i + 1, it_dev = d\<rparr>"
      by (subst operator_inc.simps) (simp add: Let_def)
    from True Suc.prems Suc.hyps(2) have "n = nat (RS_SUBDEVICE_COUNT - (i + 1))"
      and "0 \<le> i + 1" and "i + 1 < RS_SUBDEVICE_COUNT"
      by linarith+
    from Suc.hyps(1) [OF this] obtain j where
      j: "operator_inc \<lparr>idx = i + 1, it_dev = d\<rparr> = Some \<lparr>idx = j, it_dev = d\<rparr>"
        "i + 1 < j" "j \<le> RS_SUBDEVICE_COUNT" "j = RS_SUBDEVICE_COUNT \<or> supports d j"
        "filter (supports d) [i + 1 + 1..j - 1] = []"
      by blast
    from j(2) have "[i + 1..j - 1] = (i + 1) # [i + 1 + 1..j - 1]"
      by (simp add: upto_rec1)
    with True j(5) have "filter (supports d) [i + 1..j - 1] = []"
      by simp
    with step j show ?thesis
      by auto
  qed
qed

lemma range_for_loop_visits:
  assumes wf: "\<And>k s. get_subdevice d k = Inr s \<Longrightarrow> sub_index s = k"
  shows "0 \<le> i \<Longrightarrow> i \<le> RS_SUBDEVICE_COUNT \<Longrightarrow> i = RS_SUBDEVICE_COUNT \<or> supports d i \<Longrightarrow>
   range_for_loop \<lparr>idx = i, it_dev = d\<rparr> (rs_end d) acc
     = Some (Inr (acc @ filter (supports d) [i..RS_SUBDEVICE_COUNT - 1]))"
proof (induction "nat (RS_SUBDEVICE_COUNT - i)" arbitrary: i acc rule: less_induct)
  case less
  show ?case
  proof (cases "i = RS_SUBDEVICE_COUNT")
    case True
    then show ?thesis
      by (subst range_for_loop.simps) (simp add: operator_ne_def rs_end_def)
  next
    case False
    with less.prems have lt: "i < RS_SUBDEVICE_COUNT" and sup: "supports d i"
      by auto
    from sup obtain s where s: "get_subdevice d i = Inr s"
      by (auto simp: get_subdevice_def supports_def)
    from operator_inc_next [OF less.prems(1) lt, of d] obtain j where
      j: "operator_inc \<lparr>idx = i, it_dev = d\<rparr> = Some \<lparr>idx = j, it_dev = d\<rparr>"
        "i < j" "j \<le> RS_SUBDEVICE_COUNT" "j = RS_SUBDEVICE_COUNT \<or> supports d j"
        "filter (supports d) [i + 1..j - 1] = []"
      by blast
    have unf: "range_for_loop \<lparr>idx = i, it_dev = d\<rparr> (rs_end d) acc
        = range_for_loop \<lparr>idx = j, it_dev = d\<rparr> (rs_end d) (acc @ [i])"
      using False s j(1) wf [OF s]
      by (subst range_for_loop.simps) (simp add: operator_ne_def rs_end_def operator_deref_def)
    have smaller: "nat (RS_SUBDEVICE_COUNT - j) < nat (RS_SUBDEVICE_COUNT - i)"
      using j(2) lt by linarith
    have "0 \<le> j" using less.prems(1) j(2) by linarith
    from less.hyps [OF smaller this j(3) j(4)]
    have rec: "range_for_loop \<lparr>idx = j, it_dev = d\<rparr> (rs_end d) (acc @ [i])
        = Some (Inr ((acc @ [i]) @ filter (supports d) [j..RS_SUBDEVICE_COUNT - 1]))" .
    have "[i + 1..RS_SUBDEVICE_COUNT - 1] = [i + 1..j - 1] @ [j..RS_SUBDEVICE_COUNT - 1]"
    proof (cases "j = RS_SUBDEVICE_COUNT")
      case True
      then show ?thesis by simp
    next
      case False
      with j(2,3) show ?thesis
        by (intro upto_split1) linarith+
    qed
    with j(5) have "filter (supports d) [i + 1..RS_SUBDEVICE_COUNT - 1]
        = filter (supports d) [j..RS_SUBDEVICE_COUNT - 1]"
      by simp
    moreover from lt have "[i..RS_SUBDEVICE_COUNT - 1] = i # [i + 1..RS_SUBDEVICE_COUNT - 1]"
      by (intro upto_rec1) linarith
    ultimately have "filter (supports d) [i..RS_SUBDEVICE_COUNT - 1]
        = i # filter (supports d) [j..RS_SUBDEVICE_COUNT - 1]"
      using sup by simp
    with unf rec show ?thesis
      by simp
  qed
qed

lemma device_ctor_supports:
  assumes "device_ctor probe h w = (Inr d, w')"
  shows "supports d k = (0 \<le> k \<and> k < RS_SUBDEVICE_COUNT \<and> fst (probe h k) \<noteq> 0)"
  using get_subdevice_device_ctor [OF assms, of k]
  by (auto simp: get_subdevice_def supports_def split: if_splits)

lemma range_for_visits_supported:
  assumes c: "device_ctor probe h w = (Inr d, w')"
    and first: "fst (probe h RS_SUBDEVICE_COLOR) \<noteq> 0"
  shows "range_for d
     = Some (Inr (filter (\<lambda>k. fst (probe h k) \<noteq> 0) [RS_SUBDEVICE_COLOR..RS_SUBDEVICE_COUNT - 1]))"
proof -
  have wf: "sub_index s = k" if "get_subdevice d k = Inr s" for k s
    using get_subdevice_device_ctor [OF c, of k] that by (auto split: if_splits)
  have "supports d RS_SUBDEVICE_COLOR"
    using first by (simp add: device_ctor_supports [OF c] RS_SUBDEVICE_COLOR_def RS_SUBDEVICE_COUNT_def)
  then have "range_for d = Some (Inr ([] @ filter (supports d) [RS_SUBDEVICE_COLOR..RS_SUBDEVICE_COUNT - 1]))"
    unfolding range_for_def rs_begin_def
    by (intro range_for_loop_visits wf) (simp_all add: RS_SUBDEVICE_COLOR_def RS_SUBDEVICE_COUNT_def)
  moreover have "filter (supports d) [RS_SUBDEVICE_COLOR..RS_SUBDEVICE_COUNT - 1]
      = filter (\<lambda>k. fst (probe h k) \<noteq> 0) [RS_SUBDEVICE_COLOR..RS_SUBDEVICE_COUNT - 1]"
    by (rule filter_cong) (auto simp: device_ctor_supports [OF c] RS_SUBDEVICE_COLOR_def)
  ultimately show ?thesis by simp
qed

lemma range_for_visits_supported_example:
  "device_ctor (\<lambda>h s. (if s = 0 \<or> s = 2 then 1 else 0, None)) (Some 7)
      \<lparr>released = [], freed = []\<rparr>
     = (Inr \<lparr>dev = Some 7,
             subdevices = [Some \<lparr>sub_dev = Some 7, sub_index = 0\<rparr>, None,
                           Some \<lparr>sub_dev = Some 7, sub_index = 2\<rparr>, None]\<rparr>,
        \<lparr>released = [], freed = []\<rparr>)
   \<and> range_for \<lparr>dev = Some 7,
                 subdevices = [Some \<lparr>sub_dev = Some 7, sub_index = 0\<rparr>, None,
                               Some \<lparr>sub_dev = Some 7, sub_index = 2\<rparr>, None]\<rparr>
     = Some (Inr [0, 2])"
proof -
  have c: "device_ctor (\<lambda>h s. (if s = 0 \<or> s = 2 then 1 else 0, None)) (Some 7)
      \<lparr>released = [], freed = []\<rparr>
     = (Inr \<lparr>dev = Some 7,
             subdevices = [Some \<lparr>sub_dev = Some 7, sub_index = 0\<rparr>, None,
                           Some \<lparr>sub_dev = Some 7, sub_index = 2\<rparr>, None]\<rparr>,
        \<lparr>released = [], freed = []\<rparr>)"
    by (simp add: device_ctor_def device_loop.simps RS_SUBDEVICE_COUNT_def handle_def
        eval_nat_numeral)
  have "[0..3] = [0, 1, 2, 3::int]"
    by (simp add: upto_rec1)
  with c range_for_visits_supported [OF c] show ?thesis
    by (simp add: RS_SUBDEVICE_COLOR_def RS_SUBDEVICE_COUNT_def)
qed

text \<open>
  C1. The claim fails on a device without a color subdevice. \<open>rs_begin\<close> starts at the
  color kind whether or not the device supports it, and only \<open>operator_inc\<close> skips
  unsupported kinds. On the device that the constructor builds when the probe reports
  the depth kind alone, the first dereference throws "not supported": the iteration
  ends with that error and never visits the supported depth subdevice. (With the
  color kind supported the iteration returns the supported kinds in ascending order:
  \<open>range_for_visits_supported\<close>.)
\<close>

theorem range_for_throws_without_color:
  "device_ctor (\<lambda>h s. (if s = RS_SUBDEVICE_DEPTH then 1 else 0, None)) (Some 7)
      \<lparr>released = [], freed = []\<rparr>
     = (Inr \<lparr>dev = Some 7,
             subdevices = [None, Some \<lparr>sub_dev = Some 7, sub_index = RS_SUBDEVICE_DEPTH\<rparr>,
                           None, None]\<rparr>,
        \<lparr>released = [], freed = []\<rparr>)
   \<and> supports \<lparr>dev = Some 7,
                subdevices = [None, Some \<lparr>sub_dev = Some 7, sub_index = RS_SUBDEVICE_DEPTH\<rparr>,
                              None, None]\<rparr> RS_SUBDEVICE_DEPTH
   \<and> range_for \<lparr>dev = Some 7,
                 subdevices = [None, Some \<lparr>sub_dev = Some 7, sub_index = RS_SUBDEVICE_DEPTH\<rparr>,
                               None, None]\<rparr>
     = Some (Inl (Runtime_error ''Requested subdevice is not supported!''))"
proof (intro conjI)
  show "device_ctor (\<lambda>h s. (if s = RS_SUBDEVICE_DEPTH then 1 else 0, None)) (Some 7)
      \<lparr>released = [], freed = []\<rparr>
     = (Inr \<lparr>dev = Some 7,
             subdevices = [None, Some \<lparr>sub_dev = Some 7, sub_index = RS_SUBDEVICE_DEPTH\<rparr>,
                           None, None]\<rparr>,
        \<lparr>released = [], freed = []\<rparr>)"
    by (simp add: device_ctor_def device_loop.simps RS_SUBDEVICE_COUNT_def
        RS_SUBDEVICE_DEPTH_def handle_def eval_nat_numeral)
  show "supports \<lparr>dev = Some 7,
                subdevices = [None, Some \<lparr>sub_dev = Some 7, sub_index = RS_SUBDEVICE_DEPTH\<rparr>,
                              None, None]\<rparr> RS_SUBDEVICE_DEPTH"
    by (simp add: supports_def RS_SUBDEVICE_DEPTH_def)
  show "range_for \<lparr>dev = Some 7,
                 subdevices = [None, Some \<lparr>sub_dev = Some 7, sub_index = RS_SUBDEVICE_DEPTH\<rparr>,
                               None, None]\<rparr>
     = Some (Inl (Runtime_error ''Requested subdevice is not supported!''))"
    by (simp add: range_for_def range_for_loop.simps rs_begin_def rs_end_def operator_ne_def
        operator_deref_def get_subdevice_def RS_SUBDEVICE_COLOR_def RS_SUBDEVICE_COUNT_def)
qed

section \<open>Frame queues\<close>

lemma enqueue_eq: "enqueue enq q f w = (enq (frame_ref f) q, w)"
  by (simp add: enqueue_def frame_dtor_def)

lemma poll_for_frame_empty:
  "entries q = [] \<Longrightarrow> poll_for_frame rs_poll_for_frame q out w = (Inr False, out, q, w)"
  by (simp add: poll_for_frame_def rs_poll_for_frame_def handle_null)

lemma poll_for_frame_oldest:
  "entries q = p # ps \<Longrightarrow>
   poll_for_frame rs_poll_for_frame q out w
     = (Inr True, \<lparr>frame_ref = p\<rparr>, q\<lparr>entries := ps\<rparr>, frame_dtor out w)"
  by (simp add: poll_for_frame_def rs_poll_for_frame_def handle_null operator_assign_eq
      frame_ctor_ref_def frame_dtor_cong)

lemma enqueue_appends:
  "length (entries q) < capacity q \<Longrightarrow>
   fst (enqueue (rs_enqueue_frame when_full) q f w) = q\<lparr>entries := entries q @ [frame_ref f]\<rparr>"
  by (simp add: enqueue_eq rs_enqueue_frame_def)

lemma enqueue_many_appends:
  "length (entries q) + length fs \<le> capacity q \<Longrightarrow>
   fold (\<lambda>f q. fst (enqueue (rs_enqueue_frame when_full) q f w)) fs q
     = q\<lparr>entries := entries q @ map frame_ref fs\<rparr>"
proof (induction fs arbitrary: q)
  case Nil
  then show ?case by simp
next
  case (Cons f fs)
  from Cons.prems have room: "length (entries q) < capacity q"
    by simp
  from Cons.prems
  have "length (entries (q\<lparr>entries := entries q @ [frame_ref f]\<rparr>)) + length fs \<le>
        capacity (q\<lparr>entries := entries q @ [frame_ref f]\<rparr>)"
    by simp
  from Cons.IH [OF this] show ?case
    by (simp add: enqueue_appends [OF room])
qed

text \<open>
  C6. \<open>enqueue\<close> hands the reference of its argument to the native enqueue call and
  returns; it has no failing result, calls neither \<open>handle\<close> nor the release function
  (the native state is unchanged), and so does \<^verbatim>\<open>operator()\<close>. When a caller moves its
  frame into the argument, the caller's frame is null afterwards, and destroying it
  later releases nothing.
\<close>

theorem enqueue_transfers_ownership:
  "enqueue enq q f w = (enq (frame_ref f) q, w)
   \<and> operator_call enq q f w = (enq (frame_ref f) q, w)
   \<and> (case frame_ctor_move F of (arg, F') \<Rightarrow>
       case enqueue enq q arg w of (q', w') \<Rightarrow>
         operator_bool F' = False \<and> frame_ref F' = None
         \<and> q' = enq (frame_ref F) q \<and> w' = w \<and> frame_dtor F' w' = w)"
  by (simp add: enqueue_eq operator_call_def frame_ctor_move_eq frame_dtor_null
      operator_bool_def)

text \<open>
  C7. On the queue modelled from the spec: polling an empty queue returns false and
  leaves the output frame, the queue and the native state as they were; polling a
  queue with entries returns true, assigns the first entry to the output frame (whose
  replaced reference is released) and removes it from the queue. Frames enqueued while
  there is room are appended in the order of the calls, so the first entry is the
  oldest one: the queue is first-in first-out.
\<close>

theorem poll_for_frame_fifo:
  "(entries q = [] \<longrightarrow>
      poll_for_frame rs_poll_for_frame q out w = (Inr False, out, q, w))
   \<and> (entries q = p # ps \<longrightarrow>
      poll_for_frame rs_poll_for_frame q out w
        = (Inr True, \<lparr>frame_ref = p\<rparr>, q\<lparr>entries := ps\<rparr>, frame_dtor out w))
   \<and> (length (entries q) + length fs \<le> capacity q \<longrightarrow>
      fold (\<lambda>f q. fst (enqueue (rs_enqueue_frame when_full) q f w)) fs q
        = q\<lparr>entries := entries q @ map frame_ref fs\<rparr>)"
  by (simp add: poll_for_frame_empty poll_for_frame_oldest enqueue_many_appends)

theorem poll_for_frame_fifo_witness:
  "poll_for_frame rs_poll_for_frame (rs_create_frame_queue 2) \<lparr>frame_ref = Some 9\<rparr>
      \<lparr>released = [], freed = []\<rparr>
     = (Inr False, \<lparr>frame_ref = Some 9\<rparr>, rs_create_frame_queue 2, \<lparr>released = [], freed = []\<rparr>)
   \<and> fold (\<lambda>f q. fst (enqueue (rs_enqueue_frame (\<lambda>es p. es)) q f \<lparr>released = [], freed = []\<rparr>))
        [\<lparr>frame_ref = Some 5\<rparr>, \<lparr>frame_ref = Some 6\<rparr>] (rs_create_frame_queue 2)
     = \<lparr>capacity = 2, entries = [Some 5, Some 6]\<rparr>
   \<and> poll_for_frame rs_poll_for_frame \<lparr>capacity = 2, entries = [Some 5, Some 6]\<rparr>
        \<lparr>frame_ref = Some 9\<rparr> \<lparr>released = [], freed = []\<rparr>
     = (Inr True, \<lparr>frame_ref = Some 5\<rparr>, \<lparr>capacity = 2, entries = [Some 6]\<rparr>,
        \<lparr>released = [9], freed = []\<rparr>)
   \<and> poll_for_frame rs_poll_for_frame \<lparr>capacity = 2, entries = [Some 6]\<rparr>
        \<lparr>frame_ref = Some 5\<rparr> \<lparr>released = [9], freed = []\<rparr>
     = (Inr True, \<lparr>frame_ref = Some 6\<rparr>, \<lparr>capacity = 2, entries = []\<rparr>,
        \<lparr>released = [9, 5], freed = []\<rparr>)"
  using
    poll_for_frame_fifo [of "rs_create_frame_queue 2" "\<lparr>frame_ref = Some 9\<rparr>"
      "\<lparr>released = [], freed = []\<rparr>" "Some 5" "[]"
      "[\<lparr>frame_ref = Some 5\<rparr>, \<lparr>frame_ref = Some 6\<rparr>]" "\<lambda>es p. es"]
    poll_for_frame_fifo [of "\<lparr>capacity = 2, entries = [Some 5, Some 6]\<rparr>" "\<lparr>frame_ref = Some 9\<rparr>"
      "\<lparr>released = [], freed = []\<rparr>" "Some 5" "[Some 6]" "[]" "\<lambda>es p. es"]
    poll_for_frame_fifo [of "\<lparr>capacity = 2, entries = [Some 6]\<rparr>" "\<lparr>frame_ref = Some 5\<rparr>"
      "\<lparr>released = [9], freed = []\<rparr>" "Some 6" "[]" "[]" "\<lambda>es p. es"]
  by (simp add: rs_create_frame_queue_def frame_dtor_def rs_release_frame_def)

end
